theory Spec2Isabelle
  imports Main "HOL-Library.Word"
begin

unbundle bit_operations_syntax

section \<open>The CHIP-8 machine of chip8emu.cpp\<close>

text \<open>
  The interpreter keeps its hardware in global variables. They are collected in one
  record that every operation receives and returns. \<open>BYTE\<close> is \<open>unsigned char\<close>,
  \<open>WORD\<close> is \<open>unsigned short\<close>; a C \<open>int\<close> temporary never leaves the range of
  \<open>nat\<close> or \<open>int\<close> in this program and is modelled by them.
\<close>

type_synonym BYTE = "8 word"
type_synonym WORD = "16 word"

text \<open>
  A fixed-size C array is a function on its indices. The model guards every access whose
  index is not bounded by construction: an index outside the array is undefined behaviour
  in C++, for which the outcome \<open>UndefinedBehaviour\<close> stands (nothing is known about the
  machine afterwards). Cells outside the arrays are never read or written.

  \<open>LoadError\<close>, \<open>StackUnderflow\<close> and \<open>AddressOutOfRange\<close> are the error kinds named by
  the design document; the outcome type has them so that statements about them can be
  written. No function of the source produces them.
\<close>

datatype fault = LoadError | StackUnderflow | AddressOutOfRange | UndefinedBehaviour

record chip8 =
  m_GameMemory :: "nat \<Rightarrow> BYTE"
  m_Registers :: "nat \<Rightarrow> BYTE"
  m_AddressI :: WORD
  m_ProgramCounter :: WORD
  m_stack :: "WORD list"
  m_ScreenData :: "nat \<Rightarrow> nat \<Rightarrow> BYTE"
  m_KeysPressed :: "nat \<Rightarrow> bool"
  m_DelayTimer :: BYTE
  m_SoundTimer :: BYTE
  ProgramRunning :: bool

text \<open>\<open>BYTE m_GameMemory[0xfff]\<close>: the array has 0xfff = 4095 cells, indices 0 to 0xffe.\<close>

definition GameMemory_size :: nat where
  "GameMemory_size = 0xfff"

text \<open>\<open>#define WIDTH 32\<close>, \<open>#define HEIGHT 64\<close>; the screen is \<open>m_ScreenData[64][32]\<close>.\<close>

definition WIDTH :: nat where
  "WIDTH = 32"

definition HEIGHT :: nat where
  "HEIGHT = 64"

definition m_keyMappings :: "BYTE list" where
  "m_keyMappings =
     [0x78, 0x31, 0x32, 0x33,
      0x71, 0x77, 0x65, 0x61,
      0x73, 0x64, 0x7A, 0x63,
      0x34, 0x72, 0x66, 0x76]"

subsection \<open>Operand fields of an instruction word\<close>

text \<open>\<open>(opcode & 0xF00) >> 8\<close>, \<open>(opcode & 0x0F0) >> 4\<close>, \<open>opcode & 0x0FF\<close>,
  \<open>opcode & 0xFFF\<close> and \<open>opcode & 0x00F\<close>.\<close>

definition regX :: "WORD \<Rightarrow> nat" where
  "regX opcode = unat (drop_bit 8 (opcode AND 0xF00))"

definition regY :: "WORD \<Rightarrow> nat" where
  "regY opcode = unat (drop_bit 4 (opcode AND 0x0F0))"

definition immNN :: "WORD \<Rightarrow> WORD" where
  "immNN opcode = opcode AND 0x0FF"

definition immNNN :: "WORD \<Rightarrow> WORD" where
  "immNNN opcode = opcode AND 0xFFF"

definition immN :: "WORD \<Rightarrow> nat" where
  "immN opcode = unat (opcode AND 0x00F)"

subsection \<open>The instructions\<close>

definition Opcode0NNN :: "WORD \<Rightarrow> chip8 \<Rightarrow> chip8" where
  "Opcode0NNN opcode s = s"

text \<open>\<open>memset(m_ScreenData, 0, sizeof(m_ScreenData))\<close>.\<close>

definition Opcode00E0 :: "WORD \<Rightarrow> chip8 \<Rightarrow> chip8" where
  "Opcode00E0 opcode s =
     s\<lparr>m_ScreenData := (\<lambda>x y. if x < 64 \<and> y < 32 then 0 else m_ScreenData s x y)\<rparr>"

text \<open>
  \<open>m_ProgramCounter = m_stack[m_stack.size()-1]; m_stack.pop_back();\<close> The vector grows
  at its end. There is no test for an empty vector: indexing it at \<open>size()-1\<close> and
  \<open>pop_back\<close> are then undefined.
\<close>

definition Opcode00EE :: "WORD \<Rightarrow> chip8 \<Rightarrow> fault + chip8" where
  "Opcode00EE opcode s =
     (if m_stack s = [] then Inl UndefinedBehaviour
      else Inr (s\<lparr>m_ProgramCounter := last (m_stack s), m_stack := butlast (m_stack s)\<rparr>))"

definition Opcode1NNN :: "WORD \<Rightarrow> chip8 \<Rightarrow> chip8" where
  "Opcode1NNN opcode s = s\<lparr>m_ProgramCounter := immNNN opcode\<rparr>"

definition Opcode2NNN :: "WORD \<Rightarrow> chip8 \<Rightarrow> chip8" where
  "Opcode2NNN opcode s =
     s\<lparr>m_stack := m_stack s @ [m_ProgramCounter s], m_ProgramCounter := immNNN opcode\<rparr>"

definition Opcode3XNN :: "WORD \<Rightarrow> chip8 \<Rightarrow> chip8" where
  "Opcode3XNN opcode s =
     (if unat (m_Registers s (regX opcode)) = unat (immNN opcode)
      then s\<lparr>m_ProgramCounter := m_ProgramCounter s + 2\<rparr> else s)"

definition Opcode4XNN :: "WORD \<Rightarrow> chip8 \<Rightarrow> chip8" where
  "Opcode4XNN opcode s =
     (if unat (m_Registers s (regX opcode)) \<noteq> unat (immNN opcode)
      then s\<lparr>m_ProgramCounter := m_ProgramCounter s + 2\<rparr> else s)"

definition Opcode5XY0 :: "WORD \<Rightarrow> chip8 \<Rightarrow> chip8" where
  "Opcode5XY0 opcode s =
     (if unat (m_Registers s (regX opcode)) = unat (m_Registers s (regY opcode))
      then s\<lparr>m_ProgramCounter := m_ProgramCounter s + 2\<rparr> else s)"

definition Opcode6XNN :: "WORD \<Rightarrow> chip8 \<Rightarrow> chip8" where
  "Opcode6XNN opcode s =
     s\<lparr>m_Registers := (m_Registers s)(regX opcode := ucast (immNN opcode))\<rparr>"

definition Opcode7XNN :: "WORD \<Rightarrow> chip8 \<Rightarrow> chip8" where
  "Opcode7XNN opcode s =
     s\<lparr>m_Registers := (m_Registers s)
        (regX opcode := word_of_nat (unat (m_Registers s (regX opcode)) + unat (immNN opcode)))\<rparr>"

definition Opcode8XY0 :: "WORD \<Rightarrow> chip8 \<Rightarrow> chip8" where
  "Opcode8XY0 opcode s =
     s\<lparr>m_Registers := (m_Registers s)(regX opcode := m_Registers s (regY opcode))\<rparr>"

definition Opcode8XY1 :: "WORD \<Rightarrow> chip8 \<Rightarrow> chip8" where
  "Opcode8XY1 opcode s =
     s\<lparr>m_Registers := (m_Registers s)
        (regX opcode := m_Registers s (regX opcode) OR m_Registers s (regY opcode))\<rparr>"

definition Opcode8XY2 :: "WORD \<Rightarrow> chip8 \<Rightarrow> chip8" where
  "Opcode8XY2 opcode s =
     s\<lparr>m_Registers := (m_Registers s)
        (regX opcode := m_Registers s (regX opcode) AND m_Registers s (regY opcode))\<rparr>"

definition Opcode8XY3 :: "WORD \<Rightarrow> chip8 \<Rightarrow> chip8" where
  "Opcode8XY3 opcode s =
     s\<lparr>m_Registers := (m_Registers s)
        (regX opcode := m_Registers s (regX opcode) XOR m_Registers s (regY opcode))\<rparr>"

text \<open>
  \<open>int sum = m_Registers[x] + m_Registers[y];
  if (sum > 255) m_Registers[0xF] = 1; else m_Registers[0xF] = 0;
  m_Registers[x] = sum & 0xFF;\<close>
  The flag is stored first, the sum second.
\<close>

definition Opcode8XY4 :: "WORD \<Rightarrow> chip8 \<Rightarrow> chip8" where
  "Opcode8XY4 opcode s =
     (let x = regX opcode; y = regY opcode;
          sum = unat (m_Registers s x) + unat (m_Registers s y);
          regs1 = (m_Registers s)(0xF := (if sum > 255 then 1 else 0))
      in s\<lparr>m_Registers := regs1(x := word_of_nat (sum AND 0xFF))\<rparr>)"

text \<open>
  \<open>m_Registers[0xF] = 1;\<close> comes first; \<open>xval\<close> and \<open>yval\<close> are read from the
  registers after it; \<open>if (yval > xval) m_Registers[0xF] = 0;
  m_Registers[regx] = xval-yval;\<close>
\<close>

definition Opcode8XY5 :: "WORD \<Rightarrow> chip8 \<Rightarrow> chip8" where
  "Opcode8XY5 opcode s =
     (let regs1 = (m_Registers s)(0xF := 1);
          regx = regX opcode; regy = regY opcode;
          xval = regs1 regx; yval = regs1 regy;
          regs2 = (if unat yval > unat xval then regs1(0xF := 0) else regs1)
      in s\<lparr>m_Registers := regs2(regx := word_of_int (uint xval - uint yval))\<rparr>)"

text \<open>\<open>m_Registers[0xF] = m_Registers[x] & 1; m_Registers[x] >>= 1;\<close>\<close>

definition Opcode8XY6 :: "WORD \<Rightarrow> chip8 \<Rightarrow> chip8" where
  "Opcode8XY6 opcode s =
     (let regs1 = (m_Registers s)(0xF := m_Registers s (regX opcode) AND 1)
      in s\<lparr>m_Registers := regs1(regX opcode := drop_bit 1 (regs1 (regX opcode)))\<rparr>)"

definition Opcode8XY7 :: "WORD \<Rightarrow> chip8 \<Rightarrow> chip8" where
  "Opcode8XY7 opcode s =
     (let regs1 = (m_Registers s)(0xF := 1);
          regx = regX opcode; regy = regY opcode;
          xval = regs1 regx; yval = regs1 regy;
          regs2 = (if unat xval > unat yval then regs1(0xF := 0) else regs1)
      in s\<lparr>m_Registers := regs2(regx := word_of_int (uint yval - uint xval))\<rparr>)"

text \<open>\<open>m_Registers[0xF] = m_Registers[x] >> 7; m_Registers[x] <<= 1;\<close>\<close>

definition Opcode8XYE :: "WORD \<Rightarrow> chip8 \<Rightarrow> chip8" where
  "Opcode8XYE opcode s =
     (let regs1 = (m_Registers s)(0xF := drop_bit 7 (m_Registers s (regX opcode)))
      in s\<lparr>m_Registers := regs1(regX opcode := push_bit 1 (regs1 (regX opcode)))\<rparr>)"

definition Opcode9XY0 :: "WORD \<Rightarrow> chip8 \<Rightarrow> chip8" where
  "Opcode9XY0 opcode s =
     (if m_Registers s (regX opcode) \<noteq> m_Registers s (regY opcode)
      then s\<lparr>m_ProgramCounter := m_ProgramCounter s + 2\<rparr> else s)"

definition OpcodeANNN :: "WORD \<Rightarrow> chip8 \<Rightarrow> chip8" where
  "OpcodeANNN opcode s = s\<lparr>m_AddressI := immNNN opcode\<rparr>"

definition OpcodeBNNN :: "WORD \<Rightarrow> chip8 \<Rightarrow> chip8" where
  "OpcodeBNNN opcode s =
     s\<lparr>m_ProgramCounter := word_of_nat (unat (m_Registers s 0) + unat (immNNN opcode))\<rparr>"

text \<open>\<open>rand() & (opcode & 0x0FF)\<close>; the value \<open>rnd\<close> returned by \<open>rand()\<close> is an input.\<close>

definition OpcodeCXNN :: "int \<Rightarrow> WORD \<Rightarrow> chip8 \<Rightarrow> chip8" where
  "OpcodeCXNN rnd opcode s =
     s\<lparr>m_Registers := (m_Registers s)(regX opcode := word_of_int (rnd AND uint (immNN opcode)))\<rparr>"

text \<open>
  The draw instruction. The body of the inner loop, for one bit of one sprite byte:
  \<open>int mask = 1<<xpixelinv; if (data & mask) { x = coordx + xpixel; y = coordy + yline;
  x %= HEIGHT; y %= WIDTH; if (m_ScreenData[x][y] == 1) m_Registers[0xF] = 1;
  m_ScreenData[x][y] ^= 1; }\<close> where \<open>xpixelinv = 7 - xpixel\<close>. The loops change the
  registers and the screen only, so they pass this pair along.
\<close>

definition draw_pixel ::
  "nat \<Rightarrow> nat \<Rightarrow> nat \<Rightarrow> BYTE \<Rightarrow> nat \<Rightarrow>
   (nat \<Rightarrow> BYTE) \<times> (nat \<Rightarrow> nat \<Rightarrow> BYTE) \<Rightarrow> (nat \<Rightarrow> BYTE) \<times> (nat \<Rightarrow> nat \<Rightarrow> BYTE)" where
  "draw_pixel coordx coordy yline data xpixel rs =
     (let regs = fst rs; scr = snd rs;
          xpixelinv = 7 - xpixel;
          mask = (push_bit xpixelinv 1 :: BYTE)
      in if data AND mask \<noteq> 0 then
           (let x = (coordx + xpixel) mod HEIGHT;
                y = (coordy + yline) mod WIDTH
            in ((if scr x y = 1 then regs(0xF := 1) else regs),
                scr(x := (scr x)(y := scr x y XOR 1))))
         else rs)"

text \<open>\<open>for (xpixel = 0 ; xpixel<8 ; xpixel++, xpixelinv--)\<close>\<close>

definition draw_line ::
  "nat \<Rightarrow> nat \<Rightarrow> nat \<Rightarrow> BYTE \<Rightarrow>
   (nat \<Rightarrow> BYTE) \<times> (nat \<Rightarrow> nat \<Rightarrow> BYTE) \<Rightarrow> (nat \<Rightarrow> BYTE) \<times> (nat \<Rightarrow> nat \<Rightarrow> BYTE)" where
  "draw_line coordx coordy yline data rs =
     fold (draw_pixel coordx coordy yline data) [0..<8] rs"

text \<open>
  \<open>for (int yline = 0 ; yline < height ; yline++) { BYTE data =
  m_GameMemory[m_AddressI+yline]; ... }\<close>, over the list of the values of \<open>yline\<close>
  still to come. The read is not checked by the source.
\<close>

fun draw_lines ::
  "(nat \<Rightarrow> BYTE) \<Rightarrow> nat \<Rightarrow> nat \<Rightarrow> nat \<Rightarrow> nat list \<Rightarrow>
   (nat \<Rightarrow> BYTE) \<times> (nat \<Rightarrow> nat \<Rightarrow> BYTE) \<Rightarrow> fault + (nat \<Rightarrow> BYTE) \<times> (nat \<Rightarrow> nat \<Rightarrow> BYTE)" where
  "draw_lines mem addr coordx coordy [] rs = Inr rs"
| "draw_lines mem addr coordx coordy (yline # ylines) rs =
     (if addr + yline < GameMemory_size
      then draw_lines mem addr coordx coordy ylines
             (draw_line coordx coordy yline (mem (addr + yline)) rs)
      else Inl UndefinedBehaviour)"

definition OpcodeDXYN :: "WORD \<Rightarrow> chip8 \<Rightarrow> fault + chip8" where
  "OpcodeDXYN opcode s =
     (let regx = regX opcode; regy = regY opcode;
          height = immN opcode;
          coordx = unat (m_Registers s regx);
          coordy = unat (m_Registers s regy);
          regs0 = (m_Registers s)(0xF := 0)
      in case draw_lines (m_GameMemory s) (unat (m_AddressI s)) coordx coordy [0..<height]
                (regs0, m_ScreenData s) of
           Inl e \<Rightarrow> Inl e
         | Inr rs \<Rightarrow> Inr (s\<lparr>m_Registers := fst rs, m_ScreenData := snd rs\<rparr>))"

text \<open>
  \<open>if (m_KeysPressed[m_Registers[regx]] == 1) m_ProgramCounter += 2;\<close> The array has 16
  cells and the register holds any byte.
\<close>

definition OpcodeEX9E :: "WORD \<Rightarrow> chip8 \<Rightarrow> fault + chip8" where
  "OpcodeEX9E opcode s =
     (let k = unat (m_Registers s (regX opcode))
      in if k < 16 then
           Inr (if m_KeysPressed s k then s\<lparr>m_ProgramCounter := m_ProgramCounter s + 2\<rparr> else s)
         else Inl UndefinedBehaviour)"

definition OpcodeEXA1 :: "WORD \<Rightarrow> chip8 \<Rightarrow> fault + chip8" where
  "OpcodeEXA1 opcode s =
     (let k = unat (m_Registers s (regX opcode))
      in if k < 16 then
           Inr (if \<not> m_KeysPressed s k then s\<lparr>m_ProgramCounter := m_ProgramCounter s + 2\<rparr> else s)
         else Inl UndefinedBehaviour)"

definition OpcodeFX07 :: "WORD \<Rightarrow> chip8 \<Rightarrow> chip8" where
  "OpcodeFX07 opcode s =
     s\<lparr>m_Registers := (m_Registers s)(regX opcode := m_DelayTimer s)\<rparr>"

text \<open>
  \<open>for (i = 0; i < 16; i++) if (m_KeysPressed[i] == 1) { m_Registers[regx] =
  m_keyMappings[i]; keypressed = 1; }\<close> and then \<open>if (keypressed == 0)
  m_ProgramCounter -= 2;\<close> The loop passes the registers and \<open>keypressed\<close> along; the
  pause of \<open>SDL_Delay\<close> has no effect on the state.
\<close>

definition key_scan :: "(nat \<Rightarrow> bool) \<Rightarrow> nat \<Rightarrow> nat \<Rightarrow> (nat \<Rightarrow> BYTE) \<times> bool \<Rightarrow> (nat \<Rightarrow> BYTE) \<times> bool" where
  "key_scan keys regx i rk =
     (if keys i then ((fst rk)(regx := m_keyMappings ! i), True) else rk)"

definition OpcodeFX0A :: "WORD \<Rightarrow> chip8 \<Rightarrow> chip8" where
  "OpcodeFX0A opcode s =
     (let rk = fold (key_scan (m_KeysPressed s) (regX opcode)) [0..<16] (m_Registers s, False);
          s1 = s\<lparr>m_Registers := fst rk\<rparr>
      in if \<not> snd rk then s1\<lparr>m_ProgramCounter := m_ProgramCounter s1 - 2\<rparr> else s1)"

definition OpcodeFX15 :: "WORD \<Rightarrow> chip8 \<Rightarrow> chip8" where
  "OpcodeFX15 opcode s = s\<lparr>m_DelayTimer := m_Registers s (regX opcode)\<rparr>"

definition OpcodeFX18 :: "WORD \<Rightarrow> chip8 \<Rightarrow> chip8" where
  "OpcodeFX18 opcode s = s\<lparr>m_SoundTimer := m_Registers s (regX opcode)\<rparr>"

definition OpcodeFX1E :: "WORD \<Rightarrow> chip8 \<Rightarrow> chip8" where
  "OpcodeFX1E opcode s =
     s\<lparr>m_AddressI := m_AddressI s + ucast (m_Registers s (regX opcode))\<rparr>"

text \<open>
  \<open>m_AddressI = m_GameMemory[m_Registers[regx]];\<close> The index is a byte, below the size
  of the memory array.
\<close>

definition OpcodeFX29 :: "WORD \<Rightarrow> chip8 \<Rightarrow> chip8" where
  "OpcodeFX29 opcode s =
     s\<lparr>m_AddressI := ucast (m_GameMemory s (unat (m_Registers s (regX opcode))))\<rparr>"

text \<open>The three stores at \<open>m_AddressI\<close>, \<open>m_AddressI+1\<close>, \<open>m_AddressI+2\<close> are not
  checked by the source.\<close>

definition OpcodeFX33 :: "WORD \<Rightarrow> chip8 \<Rightarrow> fault + chip8" where
  "OpcodeFX33 opcode s =
     (let v = unat (m_Registers s (regX opcode));
          hundreds = v div 100;
          tens = (v div 10) mod 10;
          units = v mod 10;
          a = unat (m_AddressI s)
      in if a + 2 < GameMemory_size then
           Inr (s\<lparr>m_GameMemory := (m_GameMemory s)
                  (a := word_of_nat hundreds, a + 1 := word_of_nat tens, a + 2 := word_of_nat units)\<rparr>)
         else Inl UndefinedBehaviour)"

text \<open>
  \<open>int tmp_addressI = m_AddressI; for (int i = 0 ; i<=regx ; i++)
  m_GameMemory[tmp_addressI++] = m_Registers[i];\<close> over the list of the values of \<open>i\<close>
  still to come; \<open>tmp_addressI\<close> is \<open>addr + i\<close>. The assignment back to
  \<open>m_AddressI\<close> is commented out in the source.
\<close>

fun dump_registers :: "(nat \<Rightarrow> BYTE) \<Rightarrow> nat \<Rightarrow> nat list \<Rightarrow> (nat \<Rightarrow> BYTE) \<Rightarrow> fault + (nat \<Rightarrow> BYTE)" where
  "dump_registers regs addr [] mem = Inr mem"
| "dump_registers regs addr (i # is) mem =
     (if addr + i < GameMemory_size
      then dump_registers regs addr is (mem(addr + i := regs i))
      else Inl UndefinedBehaviour)"

definition OpcodeFX55 :: "WORD \<Rightarrow> chip8 \<Rightarrow> fault + chip8" where
  "OpcodeFX55 opcode s =
     (case dump_registers (m_Registers s) (unat (m_AddressI s)) [0..<regX opcode + 1]
             (m_GameMemory s) of
        Inl e \<Rightarrow> Inl e
      | Inr mem \<Rightarrow> Inr (s\<lparr>m_GameMemory := mem\<rparr>))"

fun load_registers :: "(nat \<Rightarrow> BYTE) \<Rightarrow> nat \<Rightarrow> nat list \<Rightarrow> (nat \<Rightarrow> BYTE) \<Rightarrow> fault + (nat \<Rightarrow> BYTE)" where
  "load_registers mem addr [] regs = Inr regs"
| "load_registers mem addr (i # is) regs =
     (if addr + i < GameMemory_size
      then load_registers mem addr is (regs(i := mem (addr + i)))
      else Inl UndefinedBehaviour)"

definition OpcodeFX65 :: "WORD \<Rightarrow> chip8 \<Rightarrow> fault + chip8" where
  "OpcodeFX65 opcode s =
     (case load_registers (m_GameMemory s) (unat (m_AddressI s)) [0..<regX opcode + 1]
             (m_Registers s) of
        Inl e \<Rightarrow> Inl e
      | Inr regs \<Rightarrow> Inr (s\<lparr>m_Registers := regs\<rparr>))"

subsection \<open>Reset and program load\<close>

definition fontset :: "BYTE list" where
  "fontset =
     [0xF0, 0x90, 0x90, 0x90, 0xF0,
      0x20, 0x60, 0x20, 0x20, 0x70,
      0xF0, 0x10, 0xF0, 0x80, 0xF0,
      0xF0, 0x10, 0xF0, 0x10, 0xF0,
      0x90, 0x90, 0xF0, 0x10, 0x10,
      0xF0, 0x80, 0xF0, 0x10, 0xF0,
      0xF0, 0x80, 0xF0, 0x90, 0xF0,
      0xF0, 0x10, 0x20, 0x40, 0x40,
      0xF0, 0x90, 0xF0, 0x90, 0xF0,
      0xF0, 0x90, 0xF0, 0x10, 0xF0,
      0xF0, 0x90, 0xF0, 0x90, 0x90,
      0xE0, 0x90, 0xE0, 0x90, 0xE0,
      0xF0, 0x80, 0x80, 0x80, 0xF0,
      0xE0, 0x90, 0x90, 0x90, 0xE0,
      0xF0, 0x80, 0xF0, 0x80, 0xF0,
      0xF0, 0x80, 0xF0, 0x80, 0x80]"

text \<open>\<open>for (int i = 0 ; i<80 ; i++) m_GameMemory[i] = fontset[i];\<close>\<close>

definition load_fontset :: "(nat \<Rightarrow> BYTE) \<Rightarrow> (nat \<Rightarrow> BYTE)" where
  "load_fontset mem = fold (\<lambda>i m. m(i := fontset ! i)) [0..<80] mem"

text \<open>The bytes that \<open>fread\<close> delivers, stored from \<open>&m_GameMemory[0x200]\<close> on.\<close>

definition store_image :: "BYTE list \<Rightarrow> (nat \<Rightarrow> BYTE) \<Rightarrow> (nat \<Rightarrow> BYTE)" where
  "store_image img mem = fold (\<lambda>i m. m(0x200 + i := img ! i)) [0..<length img] mem"

text \<open>
  \<open>CPUReset\<close>. The file system's answer to \<open>fopen(filename, "rb")\<close> is an input:
  \<open>None\<close> when the file cannot be opened (\<open>fopen\<close> returns a null pointer), else the
  bytes of the file. \<open>fread(&m_GameMemory[0x200], 0xfff, 1, in)\<close> delivers at most 0xfff
  bytes of them and stores what it has read, also when the file is shorter than the one
  element of 0xfff bytes asked for. The source tests neither the pointer nor the size:
  \<open>fread\<close> and \<open>fclose\<close> on a null pointer, and a store beyond the end of the array,
  are undefined.
  The stack, the screen and the timers are not touched by the reset.
\<close>

definition CPUReset :: "BYTE list option \<Rightarrow> chip8 \<Rightarrow> fault + chip8" where
  "CPUReset file s =
     (let s1 = s\<lparr>ProgramRunning := True, m_AddressI := 0, m_ProgramCounter := 0x200,
                 m_Registers := (\<lambda>i. if i < 16 then 0 else m_Registers s i),
                 m_GameMemory := load_fontset (m_GameMemory s)\<rparr>
      in case file of
           None \<Rightarrow> Inl UndefinedBehaviour
         | Some bytes \<Rightarrow>
             (let img = take 0xfff bytes
              in if 0x200 + length img \<le> GameMemory_size then
                   Inr (s1\<lparr>m_GameMemory := store_image img (m_GameMemory s1),
                           m_KeysPressed := (\<lambda>i. if i < 16 then False else m_KeysPressed s1 i)\<rparr>)
                 else Inl UndefinedBehaviour))"

text \<open>The globals as the program starts: zero-initialised, the vector empty,
  \<open>ProgramRunning(true)\<close>.\<close>

definition initial_globals :: chip8 where
  "initial_globals =
     \<lparr>m_GameMemory = (\<lambda>i. 0), m_Registers = (\<lambda>i. 0), m_AddressI = 0, m_ProgramCounter = 0,
      m_stack = [], m_ScreenData = (\<lambda>x y. 0), m_KeysPressed = (\<lambda>i. False),
      m_DelayTimer = 0, m_SoundTimer = 0, ProgramRunning = True\<rparr>"

subsection \<open>Fetch, the timer thread and the dispatch\<close>

text \<open>
  \<open>opcode = m_GameMemory[m_ProgramCounter]; opcode <<= 8;
  opcode |= m_GameMemory[m_ProgramCounter+1]; m_ProgramCounter += 2;\<close>
\<close>

definition GetNextOpcode :: "chip8 \<Rightarrow> fault + WORD \<times> chip8" where
  "GetNextOpcode s =
     (let pc = unat (m_ProgramCounter s)
      in if pc < GameMemory_size \<and> pc + 1 < GameMemory_size then
           Inr (push_bit 8 (ucast (m_GameMemory s pc)) OR ucast (m_GameMemory s (pc + 1)),
                s\<lparr>m_ProgramCounter := m_ProgramCounter s + 2\<rparr>)
         else Inl UndefinedBehaviour)"

text \<open>
  One round of the loop of \<open>decreseTimer\<close>, after its sleep of 1000/60 ms:
  \<open>if (m_DelayTimer > 0) m_DelayTimer--;\<close>
\<close>

definition decreseTimer_tick :: "chip8 \<Rightarrow> chip8" where
  "decreseTimer_tick s =
     (if m_DelayTimer s > 0 then s\<lparr>m_DelayTimer := m_DelayTimer s - 1\<rparr> else s)"

text \<open>
  The \<open>switch\<close> of \<open>RunEmulator\<close> on the fetched word. The calls that paint the window
  after a draw read the screen and leave the machine as it is.
\<close>

definition decode_execute :: "int \<Rightarrow> WORD \<Rightarrow> chip8 \<Rightarrow> fault + chip8" where
  "decode_execute rnd opcode s =
     (let msb = unat (drop_bit 12 (opcode AND 0xF000))
      in if msb = 0 then
           (if opcode AND 0x00F = 0 then Inr (Opcode00E0 opcode s)
            else if opcode AND 0xF00 = 0 then Opcode00EE opcode s
            else Inr (Opcode0NNN opcode s))
         else if msb = 1 then Inr (Opcode1NNN opcode s)
         else if msb = 2 then Inr (Opcode2NNN opcode s)
         else if msb = 3 then Inr (Opcode3XNN opcode s)
         else if msb = 4 then Inr (Opcode4XNN opcode s)
         else if msb = 5 then Inr (Opcode5XY0 opcode s)
         else if msb = 6 then Inr (Opcode6XNN opcode s)
         else if msb = 7 then Inr (Opcode7XNN opcode s)
         else if msb = 8 then
           (let lsb = unat (opcode AND 0x00F)
            in if lsb = 0 then Inr (Opcode8XY0 opcode s)
               else if lsb = 1 then Inr (Opcode8XY1 opcode s)
               else if lsb = 2 then Inr (Opcode8XY2 opcode s)
               else if lsb = 3 then Inr (Opcode8XY3 opcode s)
               else if lsb = 4 then Inr (Opcode8XY4 opcode s)
               else if lsb = 5 then Inr (Opcode8XY5 opcode s)
               else if lsb = 6 then Inr (Opcode8XY6 opcode s)
               else if lsb = 7 then Inr (Opcode8XY7 opcode s)
               else if lsb = 14 then Inr (Opcode8XYE opcode s)
               else Inr s)
         else if msb = 9 then Inr (Opcode9XY0 opcode s)
         else if msb = 0xA then Inr (OpcodeANNN opcode s)
         else if msb = 0xB then Inr (OpcodeBNNN opcode s)
         else if msb = 0xC then Inr (OpcodeCXNN rnd opcode s)
         else if msb = 0xD then OpcodeDXYN opcode s
         else if msb = 0xE then
           (if opcode AND 0x00F = 1 then OpcodeEXA1 opcode s
            else OpcodeEX9E opcode s)
         else if msb = 0xF then
           (let lsb = unat (opcode AND 0x0FF)
            in if lsb = 0x07 then Inr (OpcodeFX07 opcode s)
               else if lsb = 0x0A then Inr (OpcodeFX0A opcode s)
               else if lsb = 0x15 then Inr (OpcodeFX15 opcode s)
               else if lsb = 0x18 then Inr (OpcodeFX18 opcode s)
               else if lsb = 0x1E then Inr (OpcodeFX1E opcode s)
               else if lsb = 0x29 then Inr (OpcodeFX29 opcode s)
               else if lsb = 0x33 then OpcodeFX33 opcode s
               else if lsb = 0x55 then OpcodeFX55 opcode s
               else if lsb = 0x65 then OpcodeFX65 opcode s
               else Inr s)
         else Inr s)"

text \<open>One round of the loop of \<open>RunEmulator\<close>: fetch, then dispatch.\<close>

definition RunEmulator_round :: "int \<Rightarrow> chip8 \<Rightarrow> fault + chip8" where
  "RunEmulator_round rnd s =
     (case GetNextOpcode s of
        Inl e \<Rightarrow> Inl e
      | Inr (opcode, s1) \<Rightarrow> decode_execute rnd opcode s1)"

subsection \<open>The draw instruction as the design document words it\<close>

text \<open>
  The design document describes a draw by the pixels it touches: every set bit of the
  sprite bytes, most significant bit first, names the pixel at the origin plus the bit's
  column and row, wrapped modulo 64 across and modulo 32 down; each such pixel is
  combined by XOR; a collision is a pixel that was 1 when its turn came. These
  definitions follow those words; the theorems below compare \<open>OpcodeDXYN\<close> with them.
\<close>

definition toggle :: "nat \<times> nat \<Rightarrow> (nat \<Rightarrow> nat \<Rightarrow> BYTE) \<Rightarrow> (nat \<Rightarrow> nat \<Rightarrow> BYTE)" where
  "toggle p scr = scr(fst p := (scr (fst p))(snd p := scr (fst p) (snd p) XOR 1))"

definition row_pixels :: "nat \<Rightarrow> nat \<Rightarrow> nat \<Rightarrow> BYTE \<Rightarrow> (nat \<times> nat) list" where
  "row_pixels vx vy row byte =
     map (\<lambda>col. ((vx + col) mod 64, (vy + row) mod 32))
       (filter (\<lambda>col. bit byte (7 - col)) [0..<8])"

definition sprite_pixels :: "(nat \<Rightarrow> BYTE) \<Rightarrow> nat \<Rightarrow> nat \<Rightarrow> nat \<Rightarrow> nat \<Rightarrow> (nat \<times> nat) list" where
  "sprite_pixels mem addr vx vy n =
     concat (map (\<lambda>row. row_pixels vx vy row (mem (addr + row))) [0..<n])"

text \<open>Some pixel of the sequence is 1 at the moment it is toggled, and so goes from 1
  to 0.\<close>

fun erases :: "(nat \<times> nat) list \<Rightarrow> (nat \<Rightarrow> nat \<Rightarrow> BYTE) \<Rightarrow> bool" where
  "erases [] scr = False"
| "erases (p # ps) scr = (scr (fst p) (snd p) = 1 \<or> erases ps (toggle p scr))"

text \<open>One pixel's turn on the pair of registers and screen that the loops of
  \<open>OpcodeDXYN\<close> pass along.\<close>

definition plot ::
  "nat \<times> nat \<Rightarrow> (nat \<Rightarrow> BYTE) \<times> (nat \<Rightarrow> nat \<Rightarrow> BYTE) \<Rightarrow> (nat \<Rightarrow> BYTE) \<times> (nat \<Rightarrow> nat \<Rightarrow> BYTE)" where
  "plot p rs =
     ((if snd rs (fst p) (snd p) = 1 then (fst rs)(0xF := 1) else fst rs), toggle p (snd rs))"

subsection \<open>Machines and programs used as examples\<close>

text \<open>V0 = 100 and VF = 200, for the addition \<open>8F04\<close>.\<close>

definition add_example :: chip8 where
  "add_example = initial_globals\<lparr>m_Registers := (\<lambda>i. 0)(0 := 100, 0xF := 200)\<rparr>"

text \<open>V0 = 5 and VF = 10, for the subtractions \<open>80F5\<close> and \<open>8F07\<close>.\<close>

definition sub_example :: chip8 where
  "sub_example = initial_globals\<lparr>m_Registers := (\<lambda>i. 0)(0 := 5, 0xF := 10)\<rparr>"

text \<open>
  A sprite byte \<open>0xC0\<close> at address 0x300, the origin (63, 31) in V0 and V1, the pixel
  (63, 31) lit and a stale 7 in VF.
\<close>

definition draw_example :: chip8 where
  "draw_example =
     initial_globals\<lparr>m_GameMemory := (\<lambda>i. 0)(0x300 := 0xC0), m_AddressI := 0x300,
        m_Registers := (\<lambda>i. 0)(0 := 63, 1 := 31, 0xF := 7),
        m_ScreenData := (\<lambda>x y. 0)(63 := (\<lambda>y. 0)(31 := 1))\<rparr>"

text \<open>Both timers at 5.\<close>

definition timer_example :: chip8 where
  "timer_example = initial_globals\<lparr>m_DelayTimer := 5, m_SoundTimer := 5\<rparr>"

text \<open>The program \<open>600A F029\<close>: V0 := 0x0A, then I := the glyph of V0.\<close>

definition font_program :: "BYTE list" where
  "font_program = [0x60, 0x0A, 0xF0, 0x29]"

text \<open>Key 0 held down, one return address on the stack, the pixel (3, 4) lit.\<close>

definition key_example :: chip8 where
  "key_example =
     initial_globals\<lparr>m_ProgramCounter := 0x202, m_KeysPressed := (\<lambda>i. False)(0 := True),
        m_stack := [0x300], m_ScreenData := (\<lambda>x y. 0)(3 := (\<lambda>y. 0)(4 := 1))\<rparr>"

text \<open>The index register at 0x1000, past the memory array.\<close>

definition far_index_example :: chip8 where
  "far_index_example = initial_globals\<lparr>m_AddressI := 0x1000\<rparr>"

text \<open>The index register at 0x300 and V0, V1, V2 = 7, 8, 9; memory holds 1, 2, 3 there.\<close>

definition index_example :: chip8 where
  "index_example =
     initial_globals\<lparr>m_AddressI := 0x300, m_Registers := (\<lambda>i. 0)(0 := 7, 1 := 8, 2 := 9),
        m_GameMemory := (\<lambda>i. 0)(0x300 := 1, 0x301 := 2, 0x302 := 3)\<rparr>"

text \<open>The machine after the call \<open>2300\<close> made with the program counter at 0x202.\<close>

definition call_example :: chip8 where
  "call_example = Opcode2NNN 0x2300 (initial_globals\<lparr>m_ProgramCounter := 0x202\<rparr>)"

text \<open>An image of 4096 - 512 + 1 bytes.\<close>

definition long_image :: "BYTE list" where
  "long_image = replicate 3585 0"

section \<open>Properties\<close>

subsection \<open>Operand fields\<close>

lemma and15_less: "unat ((w :: WORD) AND 15) < 16"
proof -
  have "unat (w AND 15) \<le> unat (15 :: WORD)"
    by (rule word_and_le1 [THEN word_le_nat_alt [THEN iffD1]])
  then show ?thesis by simp
qed

lemma regX_less: "regX opcode < 16"
  using and15_less [of "drop_bit 8 opcode"] by (simp add: regX_def)

lemma regY_less: "regY opcode < 16"
  using and15_less [of "drop_bit 4 opcode"] by (simp add: regY_def)

lemma immN_less: "immN opcode < 16"
  using and15_less [of opcode] by (simp add: immN_def)

lemma and_255_nat: "(n :: nat) AND 0xFF = n mod 256"
proof -
  have "take_bit 8 n = n AND mask 8" by (rule take_bit_eq_mask)
  then show ?thesis by (simp add: take_bit_eq_mod mask_eq_exp_minus_1)
qed

subsection \<open>Addition and subtraction of registers\<close>

text \<open>While the destination is not VF, the addition leaves the sum modulo 256 in VX and
  the carry in VF, whichever register VY is.\<close>

lemma Opcode8XY4_not_VF:
  assumes "regX opcode \<noteq> 0xF"
  shows "m_Registers (Opcode8XY4 opcode s) (regX opcode) =
           word_of_nat ((unat (m_Registers s (regX opcode)) + unat (m_Registers s (regY opcode))) mod 256)
       \<and> m_Registers (Opcode8XY4 opcode s) 0xF =
           (if unat (m_Registers s (regX opcode)) + unat (m_Registers s (regY opcode)) > 255
            then 1 else 0)"
  using assms by (simp add: Opcode8XY4_def Let_def and_255_nat)

text \<open>With VF as the destination the sum is stored over the flag.\<close>

lemma Opcode8XY4_VF:
  assumes "regX opcode = 0xF"
  shows "m_Registers (Opcode8XY4 opcode s) 0xF =
           word_of_nat ((unat (m_Registers s 0xF) + unat (m_Registers s (regY opcode))) mod 256)"
  using assms by (simp add: Opcode8XY4_def Let_def and_255_nat)

text \<open>
  Claim C1. The add-registers instruction is to leave the carry in VF also when VF is its
  destination. On \<open>8F04\<close> with VF = 200 and V0 = 100 the sum is 300: the source stores the
  carry 1 in VF and then the low byte 44 of the sum over it, so VF ends at 44.
\<close>

theorem Opcode8XY4_flag_overwritten:
  "\<exists>s'. decode_execute rnd 0x8F04 add_example = Inr s' \<and>
      unat (m_Registers add_example 0xF) + unat (m_Registers add_example 0) = 300 \<and>
      m_Registers s' 0xF = 44"
  by (simp add: decode_execute_def Opcode8XY4_def regX_def regY_def add_example_def
      initial_globals_def Let_def)

text \<open>While neither operand is VF, both subtractions leave the wrap-around difference of
  the operands in VX, and in VF 0 for a borrow and 1 otherwise.\<close>

lemma Opcode8XY5_not_VF:
  assumes "regX opcode \<noteq> 0xF" and "regY opcode \<noteq> 0xF"
  shows "m_Registers (Opcode8XY5 opcode s) (regX opcode) =
           m_Registers s (regX opcode) - m_Registers s (regY opcode)
       \<and> m_Registers (Opcode8XY5 opcode s) 0xF =
           (if unat (m_Registers s (regY opcode)) > unat (m_Registers s (regX opcode))
            then 0 else 1)"
  using assms by (simp add: Opcode8XY5_def Let_def)

lemma Opcode8XY7_not_VF:
  assumes "regX opcode \<noteq> 0xF" and "regY opcode \<noteq> 0xF"
  shows "m_Registers (Opcode8XY7 opcode s) (regX opcode) =
           m_Registers s (regY opcode) - m_Registers s (regX opcode)
       \<and> m_Registers (Opcode8XY7 opcode s) 0xF =
           (if unat (m_Registers s (regX opcode)) > unat (m_Registers s (regY opcode))
            then 0 else 1)"
  using assms by (simp add: Opcode8XY7_def Let_def)

text \<open>With VF as the subtrahend of \<open>8XY5\<close>, the 1 stored in VF at the start is what is
  subtracted.\<close>

lemma Opcode8XY5_VF_operand:
  assumes "regX opcode \<noteq> 0xF" and "regY opcode = 0xF"
  shows "m_Registers (Opcode8XY5 opcode s) (regX opcode) = m_Registers s (regX opcode) - 1"
  using assms by (simp add: Opcode8XY5_def Let_def)

text \<open>
  Claim C2. Subtract and reverse subtract are to work on the operand values held before
  the instruction, for all register indices. The source stores 1 in VF before it reads
  the operands. With V0 = 5 and VF = 10, \<open>80F5\<close> (V0 := V0 - VF) has a borrow and the
  difference 251, yet V0 ends at 4 and VF at 1; \<open>8F07\<close> (VF := V0 - VF) has a borrow too,
  yet VF ends at 4.
\<close>

theorem Opcode8XY5_8XY7_operand_clobbered:
  "(\<exists>s'. decode_execute rnd 0x80F5 sub_example = Inr s' \<and>
      m_Registers sub_example 0 - m_Registers sub_example 0xF = 251 \<and>
      m_Registers s' 0 = 4 \<and> m_Registers s' 0xF = 1) \<and>
   (\<exists>s'. decode_execute rnd 0x8F07 sub_example = Inr s' \<and> m_Registers s' 0xF = 4)"
  by (simp add: decode_execute_def Opcode8XY5_def Opcode8XY7_def regX_def regY_def
      sub_example_def initial_globals_def Let_def)

subsection \<open>The draw instruction\<close>

lemma fold_plot:
  "fold plot ps (regs, scr) =
     ((if erases ps scr then regs(0xF := 1) else regs), fold toggle ps scr)"
  by (induction ps arbitrary: regs scr) (auto simp: plot_def)

lemma fold_guarded:
  "fold (\<lambda>x a. if P x then f (g x) a else a) xs a = fold f (map g (filter P xs)) a"
  by (induction xs arbitrary: a) auto

lemma draw_pixel_plot:
  "draw_pixel coordx coordy yline data xpixel rs =
     (if bit data (7 - xpixel)
      then plot ((coordx + xpixel) mod 64, (coordy + yline) mod 32) rs else rs)"
  by (simp add: draw_pixel_def plot_def toggle_def Let_def HEIGHT_def WIDTH_def
      bit_iff_and_push_bit_not_eq_0)

lemma draw_line_plot:
  "draw_line coordx coordy yline data rs = fold plot (row_pixels coordx coordy yline data) rs"
proof -
  have "draw_pixel coordx coordy yline data =
      (\<lambda>x a. if bit data (7 - x) then plot ((coordx + x) mod 64, (coordy + yline) mod 32) a else a)"
    by (intro ext) (simp add: draw_pixel_plot)
  then show ?thesis
    unfolding draw_line_def row_pixels_def
    using fold_guarded [of "\<lambda>x. bit data (7 - x)" plot
        "\<lambda>x. ((coordx + x) mod 64, (coordy + yline) mod 32)" "[0..<8]" rs]
    by simp
qed

text \<open>The rows either all lie in the memory array, and the loop plots their pixels in
  order, or one does not, and the read is undefined.\<close>

lemma draw_lines_eq:
  "draw_lines mem addr coordx coordy ys rs =
     (if \<forall>y\<in>set ys. addr + y < GameMemory_size
      then Inr (fold plot
                  (concat (map (\<lambda>row. row_pixels coordx coordy row (mem (addr + row))) ys)) rs)
      else Inl UndefinedBehaviour)"
  by (induction ys arbitrary: rs) (auto simp: draw_line_plot)

lemma rows_in_memory:
  "(\<forall>y\<in>set [0..<n]. addr + y < m) \<longleftrightarrow> (n = 0 \<or> addr + n \<le> (m::nat))"
  by (cases n) (auto simp: less_Suc_eq_le)

lemma OpcodeDXYN_eq:
  "OpcodeDXYN opcode s =
     (if immN opcode = 0 \<or> unat (m_AddressI s) + immN opcode \<le> GameMemory_size
      then Inr (s\<lparr>m_Registers := (m_Registers s)
                    (0xF := (if erases (sprite_pixels (m_GameMemory s) (unat (m_AddressI s))
                                  (unat (m_Registers s (regX opcode)))
                                  (unat (m_Registers s (regY opcode))) (immN opcode))
                                (m_ScreenData s) then 1 else 0)),
                  m_ScreenData := fold toggle
                     (sprite_pixels (m_GameMemory s) (unat (m_AddressI s))
                        (unat (m_Registers s (regX opcode)))
                        (unat (m_Registers s (regY opcode))) (immN opcode))
                     (m_ScreenData s)\<rparr>)
      else Inl UndefinedBehaviour)"
  unfolding OpcodeDXYN_def Let_def draw_lines_eq rows_in_memory
  by (simp add: fold_plot sprite_pixels_def)

text \<open>A collision in the words of the design document: at some position of the sequence,
  the pixel is 1 after the toggles before it.\<close>

lemma erases_iff:
  "erases ps scr \<longleftrightarrow>
     (\<exists>k<length ps. fold toggle (take k ps) scr (fst (ps ! k)) (snd (ps ! k)) = 1)"
proof (induction ps arbitrary: scr)
  case Nil
  then show ?case by simp
next
  case (Cons p ps)
  show ?case
  proof
    assume "erases (p # ps) scr"
    then consider "scr (fst p) (snd p) = 1" | "erases ps (toggle p scr)" by auto
    then show "\<exists>k<length (p # ps).
        fold toggle (take k (p # ps)) scr (fst ((p # ps) ! k)) (snd ((p # ps) ! k)) = 1"
    proof cases
      case 1
      then have "fold toggle (take 0 (p # ps)) scr (fst ((p # ps) ! 0)) (snd ((p # ps) ! 0)) = 1"
        by simp
      then show ?thesis by blast
    next
      case 2
      then obtain k where "k < length ps"
        and "fold toggle (take k ps) (toggle p scr) (fst (ps ! k)) (snd (ps ! k)) = 1"
        using Cons.IH by blast
      then have "Suc k < length (p # ps) \<and>
          fold toggle (take (Suc k) (p # ps)) scr
            (fst ((p # ps) ! Suc k)) (snd ((p # ps) ! Suc k)) = 1"
        by simp
      then show ?thesis by blast
    qed
  next
    assume "\<exists>k<length (p # ps).
        fold toggle (take k (p # ps)) scr (fst ((p # ps) ! k)) (snd ((p # ps) ! k)) = 1"
    then obtain k where k: "k < length (p # ps)"
      and one: "fold toggle (take k (p # ps)) scr (fst ((p # ps) ! k)) (snd ((p # ps) ! k)) = 1"
      by blast
    show "erases (p # ps) scr"
    proof (cases k)
      case 0
      with one show ?thesis by simp
    next
      case (Suc j)
      with k one have "j < length ps"
        and "fold toggle (take j ps) (toggle p scr) (fst (ps ! j)) (snd (ps ! j)) = 1"
        by simp_all
      then have "erases ps (toggle p scr)" using Cons.IH by blast
      then show ?thesis by simp
    qed
  qed
qed

text \<open>The pixels of a sprite stay on the screen: the coordinates are wrapped, not
  clamped and not left as they are.\<close>

lemma sprite_pixels_on_screen:
  "p \<in> set (sprite_pixels mem addr vx vy n) \<Longrightarrow> fst p < 64 \<and> snd p < 32"
  by (auto simp: sprite_pixels_def row_pixels_def)

text \<open>
  Claim C3. A draw \<open>DXYN\<close> whose N sprite bytes lie in the memory array (N = 0 reads
  none) ends with the screen obtained by toggling (XOR with 1), in scan order, the pixel of every set bit of
  the N bytes at the index register, at the origin (VX, VY) plus the bit's column and row
  wrapped modulo 64 and modulo 32; VF ends at 1 if one of these toggles met a pixel that
  was 1 and turned it to 0, and at 0 otherwise, whatever VF held before; nothing else
  changes. The origin is read before VF is cleared.
\<close>

theorem OpcodeDXYN_xor_collision:
  assumes "immN opcode = 0 \<or> unat (m_AddressI s) + immN opcode \<le> GameMemory_size"
  shows "OpcodeDXYN opcode s =
           Inr (s\<lparr>m_Registers := (m_Registers s)
                    (0xF := (if erases (sprite_pixels (m_GameMemory s) (unat (m_AddressI s))
                                  (unat (m_Registers s (regX opcode)))
                                  (unat (m_Registers s (regY opcode))) (immN opcode))
                                (m_ScreenData s) then 1 else 0)),
                  m_ScreenData := fold toggle
                     (sprite_pixels (m_GameMemory s) (unat (m_AddressI s))
                        (unat (m_Registers s (regX opcode)))
                        (unat (m_Registers s (regY opcode))) (immN opcode))
                     (m_ScreenData s)\<rparr>)"
  using assms by (simp add: OpcodeDXYN_eq)

text \<open>
  On \<open>D011\<close> in the example the sprite byte \<open>0xC0\<close> has two set bits, drawn at (63, 31)
  and, wrapped, at (0, 31): the lit pixel (63, 31) goes out, (0, 31) lights up and VF,
  which held 7, ends at 1.
\<close>

lemma draw_example_pixels:
  "sprite_pixels (m_GameMemory draw_example) (unat (m_AddressI draw_example))
     (unat (m_Registers draw_example (regX 0xD011)))
     (unat (m_Registers draw_example (regY 0xD011))) (immN 0xD011) = [(63, 31), (0, 31)]"
  by (simp add: draw_example_def initial_globals_def sprite_pixels_def row_pixels_def
      regX_def regY_def immN_def upt_rec [of _ "numeral _"])

theorem OpcodeDXYN_xor_collision_witness:
  "unat (m_AddressI draw_example) + immN 0xD011 \<le> GameMemory_size \<and>
   (\<exists>s'. OpcodeDXYN 0xD011 draw_example = Inr s' \<and> m_Registers s' 0xF = 1 \<and>
      m_ScreenData s' 63 31 = 0 \<and> m_ScreenData s' 0 31 = 1)"
proof -
  have h: "unat (m_AddressI draw_example) + immN 0xD011 \<le> GameMemory_size"
    by (simp add: draw_example_def initial_globals_def immN_def GameMemory_size_def)
  show ?thesis
    using h OpcodeDXYN_xor_collision [OF disjI2, OF h]
    by (simp add: draw_example_pixels)
      (simp add: draw_example_def initial_globals_def toggle_def)
qed

subsection \<open>Register dump and load\<close>

lemma dump_registers_eq:
  "dump_registers regs addr is mem =
     (if \<forall>i\<in>set is. addr + i < GameMemory_size
      then Inr (fold (\<lambda>i m. m(addr + i := regs i)) is mem) else Inl UndefinedBehaviour)"
  by (induction "is" arbitrary: mem) auto

lemma load_registers_eq:
  "load_registers mem addr is regs =
     (if \<forall>i\<in>set is. addr + i < GameMemory_size
      then Inr (fold (\<lambda>i r. r(i := mem (addr + i))) is regs) else Inl UndefinedBehaviour)"
  by (induction "is" arbitrary: regs) auto

lemma cells_in_memory: "(\<forall>i\<in>set [0..<n + 1]. addr + i < m) \<longleftrightarrow> addr + n < (m::nat)"
  by auto

lemma OpcodeFX55_eq:
  "OpcodeFX55 opcode s =
     (if unat (m_AddressI s) + regX opcode < GameMemory_size
      then Inr (s\<lparr>m_GameMemory :=
                   fold (\<lambda>i m. m(unat (m_AddressI s) + i := m_Registers s i))
                     [0..<regX opcode + 1] (m_GameMemory s)\<rparr>)
      else Inl UndefinedBehaviour)"
  unfolding OpcodeFX55_def dump_registers_eq cells_in_memory by simp

lemma OpcodeFX65_eq:
  "OpcodeFX65 opcode s =
     (if unat (m_AddressI s) + regX opcode < GameMemory_size
      then Inr (s\<lparr>m_Registers :=
                   fold (\<lambda>i r. r(i := m_GameMemory s (unat (m_AddressI s) + i)))
                     [0..<regX opcode + 1] (m_Registers s)\<rparr>)
      else Inl UndefinedBehaviour)"
  unfolding OpcodeFX65_def load_registers_eq cells_in_memory by simp

lemma fold_store_nth:
  "fold (\<lambda>i m. m(b + i := f i)) [0..<n] mem j =
     (if b \<le> j \<and> j < b + n then f (j - b) else mem j)"
  by (induction n) auto

lemma fold_load_nth:
  "fold (\<lambda>i r. r(i := f i)) [0..<n] regs j = (if j < n then f j else regs j)"
  by (induction n) auto

text \<open>
  Claim C10. Register dump \<open>FX55\<close> and register load \<open>FX65\<close> leave the index register
  as it was: in every machine and for every X, when the instruction has a result its
  index register is the one before; and it has a result, with V0..VX copied to or from
  the cells at I..I+X, whenever those cells lie in the memory array.
\<close>

theorem OpcodeFX55_FX65_index_unchanged:
  "(\<forall>s'. OpcodeFX55 opcode s = Inr s' \<longrightarrow> m_AddressI s' = m_AddressI s) \<and>
   (\<forall>s'. OpcodeFX65 opcode s = Inr s' \<longrightarrow> m_AddressI s' = m_AddressI s) \<and>
   (unat (m_AddressI s) + regX opcode < GameMemory_size \<longrightarrow>
      (\<exists>s'. OpcodeFX55 opcode s = Inr s' \<and> m_AddressI s' = m_AddressI s \<and>
         (\<forall>i\<le>regX opcode. m_GameMemory s' (unat (m_AddressI s) + i) = m_Registers s i)) \<and>
      (\<exists>s'. OpcodeFX65 opcode s = Inr s' \<and> m_AddressI s' = m_AddressI s \<and>
         (\<forall>i\<le>regX opcode. m_Registers s' i = m_GameMemory s (unat (m_AddressI s) + i))))"
  by (auto simp: OpcodeFX55_eq OpcodeFX65_eq fold_store_nth fold_load_nth)

text \<open>On \<open>F255\<close> and \<open>F265\<close> with I = 0x300: V0..V2 reach the cells 0x300..0x302, and
  the cells reach V0..V2, and I is still 0x300.\<close>

theorem OpcodeFX55_FX65_index_unchanged_witness:
  "unat (m_AddressI index_example) + regX 0xF255 < GameMemory_size \<and>
   (\<exists>s'. OpcodeFX55 0xF255 index_example = Inr s' \<and> m_AddressI s' = 0x300 \<and>
      m_GameMemory s' 0x302 = 9) \<and>
   (\<exists>s'. OpcodeFX65 0xF265 index_example = Inr s' \<and> m_AddressI s' = 0x300 \<and>
      m_Registers s' 2 = 3)"
proof -
  have x: "regX 0xF255 = 2" "regX 0xF265 = 2"
    by (simp_all add: regX_def)
  have h: "unat (m_AddressI index_example) + 2 < GameMemory_size"
    by (simp add: index_example_def initial_globals_def GameMemory_size_def)
  have i: "unat (m_AddressI index_example) = 0x300" "m_AddressI index_example = 0x300"
    by (simp_all add: index_example_def initial_globals_def)
  from OpcodeFX55_FX65_index_unchanged [of "0xF255" index_example] h x i
  obtain s1 where "OpcodeFX55 0xF255 index_example = Inr s1" "m_AddressI s1 = 0x300"
    "\<forall>i\<le>2. m_GameMemory s1 (0x300 + i) = m_Registers index_example i"
    by auto
  moreover from this have "m_GameMemory s1 0x302 = 9"
    by (auto simp: index_example_def initial_globals_def dest: spec [of _ 2])
  moreover from OpcodeFX55_FX65_index_unchanged [of "0xF265" index_example] h x i
  obtain s2 where "OpcodeFX65 0xF265 index_example = Inr s2" "m_AddressI s2 = 0x300"
    "\<forall>i\<le>2. m_Registers s2 i = m_GameMemory index_example (0x300 + i)"
    by auto
  moreover from this have "m_Registers s2 2 = 3"
    by (auto simp: index_example_def initial_globals_def dest: spec [of _ 2])
  ultimately show ?thesis using h x by auto
qed

subsection \<open>The timer thread\<close>

lemma decreseTimer_tick_delay:
  "unat (m_DelayTimer (decreseTimer_tick s)) = unat (m_DelayTimer s) - 1"
  by (simp add: decreseTimer_tick_def word_greater_zero_iff unat_minus_one unat_eq_zero)

text \<open>After n rounds the delay timer has gone down by n, stopping at 0.\<close>

lemma decreseTimer_ticks_delay:
  "unat (m_DelayTimer ((decreseTimer_tick ^^ n) s)) = unat (m_DelayTimer s) - n"
  by (induction n) (simp_all add: decreseTimer_tick_delay)

text \<open>No number of rounds changes the sound timer.\<close>

lemma decreseTimer_ticks_sound:
  "m_SoundTimer ((decreseTimer_tick ^^ n) s) = m_SoundTimer s"
  by (induction n) (simp_all add: decreseTimer_tick_def)

text \<open>
  Claim C4. Each tick is to take one from the delay timer and one from the sound timer
  while they are not 0. The loop of \<open>decreseTimer\<close> touches \<open>m_DelayTimer\<close> only: with
  both timers at 5, six rounds bring the delay timer to 0, while the sound timer is still
  5 after one round and after six.
\<close>

theorem decreseTimer_sound_untouched:
  "m_DelayTimer ((decreseTimer_tick ^^ 6) timer_example) = 0 \<and>
   m_SoundTimer (decreseTimer_tick timer_example) = 5 \<and>
   m_SoundTimer ((decreseTimer_tick ^^ 6) timer_example) = 5"
  by (simp add: eval_nat_numeral decreseTimer_tick_def timer_example_def initial_globals_def)

subsection \<open>The font\<close>

lemma load_fontset_nth: "load_fontset mem j = (if j < 80 then fontset ! j else mem j)"
  using fold_store_nth [of 0 "\<lambda>i. fontset ! i" 80 mem j] by (simp add: load_fontset_def)

lemma store_image_nth:
  "store_image img mem j =
     (if 0x200 \<le> j \<and> j < 0x200 + length img then img ! (j - 0x200) else mem j)"
  using fold_store_nth [of "0x200" "\<lambda>i. img ! i" "length img" mem j]
  by (simp add: store_image_def)

text \<open>After a reset that has a result, the 80 bytes of the font are at the addresses 0
  to 79, so the glyph of the digit d starts at 5 * d.\<close>

lemma CPUReset_font:
  assumes "CPUReset file s = Inr s'" and "j < 80"
  shows "m_GameMemory s' j = fontset ! j"
  using assms
  by (auto simp: CPUReset_def Let_def store_image_nth load_fontset_nth
      split: option.splits if_splits)

text \<open>The font-address instruction loads the index register with the byte stored at the
  address VX.\<close>

lemma OpcodeFX29_eq:
  "m_AddressI (OpcodeFX29 opcode s) = ucast (m_GameMemory s (unat (m_Registers s (regX opcode))))"
  by (simp add: OpcodeFX29_def)

text \<open>
  Claim C5. The font-address instruction is to set I to 5 times the low nibble of VX, 50
  for the digit 0xA, where the glyph of A is stored. The program \<open>600A F029\<close> runs from
  a reset: after its first instruction V0 is 0x0A, after its second I is 0xF0 = 240, the
  byte that memory holds at address 10, and not 50. The glyph of A does lie at 50..54.
\<close>

theorem OpcodeFX29_reads_memory:
  "\<exists>s0 s1 s2. CPUReset (Some font_program) initial_globals = Inr s0 \<and>
      RunEmulator_round rnd s0 = Inr s1 \<and> m_Registers s1 0 = 0xA \<and>
      RunEmulator_round rnd s1 = Inr s2 \<and> m_AddressI s2 = 0xF0 \<and>
      map (m_GameMemory s2) [50, 51, 52, 53, 54] = [0xF0, 0x90, 0xF0, 0x90, 0x90]"
  by (simp add: CPUReset_def font_program_def initial_globals_def GameMemory_size_def Let_def
      RunEmulator_round_def GetNextOpcode_def store_image_nth load_fontset_nth
      decode_execute_def Opcode6XNN_def OpcodeFX29_def regX_def immNN_def fontset_def)

subsection \<open>Instruction words outside the instruction set\<close>

text \<open>In the groups 8 and F the \<open>switch\<close> has no case for a sub-opcode that is not
  listed, and the machine stays as it is.\<close>

lemma group8_unlisted:
  assumes "drop_bit 12 (opcode AND 0xF000) = 8"
    and "unat (opcode AND 0x00F) \<notin> {0, 1, 2, 3, 4, 5, 6, 7, 14}"
  shows "decode_execute rnd opcode s = Inr s"
  using assms by (simp add: decode_execute_def Let_def)

lemma groupF_unlisted:
  assumes "drop_bit 12 (opcode AND 0xF000) = 0xF"
    and "unat (opcode AND 0x0FF) \<notin> {0x07, 0x0A, 0x15, 0x18, 0x1E, 0x29, 0x33, 0x55, 0x65}"
  shows "decode_execute rnd opcode s = Inr s"
  using assms by (simp add: decode_execute_def Let_def)

text \<open>In the group 0 the word reaches \<open>Opcode0NNN\<close>, which does nothing, only when
  neither its last nibble nor its third nibble is 0.\<close>

lemma group0_unlisted:
  assumes "drop_bit 12 (opcode AND 0xF000) = 0"
    and "opcode AND 0x00F \<noteq> 0" and "opcode AND 0xF00 \<noteq> 0"
  shows "decode_execute rnd opcode s = Inr s"
  using assms by (simp add: decode_execute_def Let_def Opcode0NNN_def)

lemma unlisted_examples:
  "decode_execute rnd 0x8128 s = Inr s" "decode_execute rnd 0xF1FF s = Inr s"
  "decode_execute rnd 0x0123 s = Inr s"
  by (simp_all add: group8_unlisted groupF_unlisted group0_unlisted)

text \<open>
  Claim C6. A word of a known group whose sub-opcode is not an instruction is to change
  nothing. In the groups 0 and E the source tests too few bits. \<open>E000\<close> is neither
  \<open>EX9E\<close> nor \<open>EXA1\<close>, yet it runs \<open>OpcodeEX9E\<close> and, key 0 being down, skips an
  instruction; \<open>0001\<close> is not \<open>00EE\<close>, yet it runs \<open>Opcode00EE\<close> and pops the stack
  into the program counter; \<open>0230\<close> is not \<open>00E0\<close>, yet it runs \<open>Opcode00E0\<close> and
  clears the screen.
\<close>

theorem decode_execute_unlisted_not_noop:
  "decode_execute rnd 0xE000 key_example = Inr (key_example\<lparr>m_ProgramCounter := 0x204\<rparr>) \<and>
   decode_execute rnd 0x0001 key_example =
     Inr (key_example\<lparr>m_ProgramCounter := 0x300, m_stack := []\<rparr>) \<and>
   (\<exists>s'. decode_execute rnd 0x0230 key_example = Inr s' \<and>
      m_ScreenData key_example 3 4 = 1 \<and> m_ScreenData s' 3 4 = 0)"
  by (simp add: decode_execute_def key_example_def initial_globals_def OpcodeEX9E_def
      Opcode00EE_def Opcode00E0_def regX_def Let_def)

subsection \<open>What the source leaves unchecked\<close>

text \<open>Where an operation of the source has no result, it is because the behaviour is
  undefined; none of the error kinds of the design document is ever produced.\<close>

lemma Opcode00EE_fault: "Opcode00EE opcode s = Inl e \<Longrightarrow> e = UndefinedBehaviour"
  by (auto simp: Opcode00EE_def split: if_splits)

lemma OpcodeDXYN_fault: "OpcodeDXYN opcode s = Inl e \<Longrightarrow> e = UndefinedBehaviour"
  by (auto simp: OpcodeDXYN_eq split: if_splits)

lemma OpcodeEX9E_fault: "OpcodeEX9E opcode s = Inl e \<Longrightarrow> e = UndefinedBehaviour"
  by (auto simp: OpcodeEX9E_def Let_def split: if_splits)

lemma OpcodeEXA1_fault: "OpcodeEXA1 opcode s = Inl e \<Longrightarrow> e = UndefinedBehaviour"
  by (auto simp: OpcodeEXA1_def Let_def split: if_splits)

lemma OpcodeFX33_fault: "OpcodeFX33 opcode s = Inl e \<Longrightarrow> e = UndefinedBehaviour"
  by (auto simp: OpcodeFX33_def Let_def split: if_splits)

lemma OpcodeFX55_fault: "OpcodeFX55 opcode s = Inl e \<Longrightarrow> e = UndefinedBehaviour"
  by (auto simp: OpcodeFX55_eq split: if_splits)

lemma OpcodeFX65_fault: "OpcodeFX65 opcode s = Inl e \<Longrightarrow> e = UndefinedBehaviour"
  by (auto simp: OpcodeFX65_eq split: if_splits)

lemma GetNextOpcode_fault: "GetNextOpcode s = Inl e \<Longrightarrow> e = UndefinedBehaviour"
  by (auto simp: GetNextOpcode_def Let_def split: if_splits)

lemma CPUReset_fault: "CPUReset file s = Inl e \<Longrightarrow> e = UndefinedBehaviour"
  by (auto simp: CPUReset_def Let_def split: if_splits option.splits)

lemma decode_execute_fault: "decode_execute rnd opcode s = Inl e \<Longrightarrow> e = UndefinedBehaviour"
  unfolding decode_execute_def Let_def
  by (auto split: if_splits dest: OpcodeDXYN_fault Opcode00EE_fault OpcodeEX9E_fault
      OpcodeEXA1_fault OpcodeFX33_fault OpcodeFX55_fault OpcodeFX65_fault)

lemma decode_execute_00EE: "decode_execute rnd 0x00EE s = Opcode00EE 0x00EE s"
  by (simp add: decode_execute_def)

text \<open>A call followed at once by a return puts the machine back as it was before the
  call.\<close>

lemma call_then_return: "Opcode00EE opcode' (Opcode2NNN opcode s) = Inr s"
  by (simp add: Opcode00EE_def Opcode2NNN_def)

text \<open>
  The return \<open>00EE\<close> on the machine as it starts, with an empty call stack: the source
  indexes and pops the empty vector. No StackUnderflow is produced.
\<close>

theorem Opcode00EE_empty_stack_counterexample:
  "m_stack initial_globals = [] \<and>
   decode_execute 0 0x00EE initial_globals = Inl UndefinedBehaviour \<and>
   decode_execute 0 0x00EE initial_globals \<noteq> Inl StackUnderflow"
  by (simp add: decode_execute_def Opcode00EE_def initial_globals_def)

text \<open>
  Claim C7, amended. The return \<open>00EE\<close> makes no test of the call stack and never fails
  with StackUnderflow. On a stack that is not empty it moves the top of the stack into
  the program counter and changes no other component of the machine; on an empty stack
  its behaviour is undefined, so that nothing is promised about the machine afterwards.
\<close>

theorem Opcode00EE_unchecked:
  "decode_execute rnd 0x00EE s \<noteq> Inl StackUnderflow \<and>
   (m_stack s \<noteq> [] \<longrightarrow>
      decode_execute rnd 0x00EE s =
        Inr (s\<lparr>m_ProgramCounter := last (m_stack s), m_stack := butlast (m_stack s)\<rparr>)) \<and>
   (m_stack s = [] \<longrightarrow> decode_execute rnd 0x00EE s = Inl UndefinedBehaviour)"
proof -
  have "decode_execute rnd 0x00EE s \<noteq> Inl StackUnderflow"
    using decode_execute_fault [of rnd "0x00EE" s StackUnderflow] by auto
  then show ?thesis
    by (simp add: decode_execute_00EE Opcode00EE_def)
qed

theorem Opcode00EE_unchecked_witness:
  "m_stack call_example \<noteq> [] \<and>
   decode_execute 0 0x00EE call_example = Inr (initial_globals\<lparr>m_ProgramCounter := 0x202\<rparr>) \<and>
   m_stack initial_globals = [] \<and>
   decode_execute 0 0x00EE initial_globals = Inl UndefinedBehaviour"
proof -
  have a: "m_stack call_example \<noteq> []"
    by (simp add: call_example_def Opcode2NNN_def)
  have b: "m_stack initial_globals = []"
    by (simp add: initial_globals_def)
  show ?thesis
    using a b Opcode00EE_unchecked [of 0 call_example] Opcode00EE_unchecked [of 0 initial_globals]
    by (simp add: call_example_def Opcode2NNN_def initial_globals_def)
qed

lemma GetNextOpcode_eq:
  "GetNextOpcode s =
     (if unat (m_ProgramCounter s) + 1 < GameMemory_size
      then Inr (push_bit 8 (ucast (m_GameMemory s (unat (m_ProgramCounter s)))) OR
                  ucast (m_GameMemory s (unat (m_ProgramCounter s) + 1)),
                s\<lparr>m_ProgramCounter := m_ProgramCounter s + 2\<rparr>)
      else Inl UndefinedBehaviour)"
  by (simp add: GetNextOpcode_def Let_def)

text \<open>
  The BCD store \<open>F033\<close> and the register dump \<open>F055\<close> with the index register at
  0x1000, outside 0x000..0xFFF: the source stores at that index of the array all the
  same. No AddressOutOfRange is produced.
\<close>

theorem memory_access_counterexample:
  "unat (m_AddressI far_index_example) = 0x1000 \<and>
   decode_execute 0 0xF033 far_index_example = Inl UndefinedBehaviour \<and>
   decode_execute 0 0xF033 far_index_example \<noteq> Inl AddressOutOfRange \<and>
   decode_execute 0 0xF055 far_index_example = Inl UndefinedBehaviour \<and>
   decode_execute 0 0xF055 far_index_example \<noteq> Inl AddressOutOfRange"
  by (simp add: decode_execute_def OpcodeFX33_def OpcodeFX55_eq far_index_example_def
      initial_globals_def GameMemory_size_def regX_def Let_def)

text \<open>
  Claim C8, amended. Memory is a byte array of fixed size, and no instruction tests an
  address. A fetch, the sprite reads of a draw, the BCD store and the register dump and
  load are carried out, and the interpreter keeps running, whenever all their addresses
  lie in the array. When one does not, the access is made all the same: the behaviour is
  undefined, and it is never reported as AddressOutOfRange.
\<close>

theorem memory_access_unchecked:
  "decode_execute rnd opcode s \<noteq> Inl AddressOutOfRange \<and>
   GetNextOpcode s \<noteq> Inl AddressOutOfRange \<and>
   (unat (m_ProgramCounter s) + 1 < GameMemory_size \<longrightarrow>
      (\<exists>w s'. GetNextOpcode s = Inr (w, s') \<and> ProgramRunning s' = ProgramRunning s)) \<and>
   (unat (m_AddressI s) + immN opcode \<le> GameMemory_size \<longrightarrow>
      (\<exists>s'. OpcodeDXYN opcode s = Inr s' \<and> ProgramRunning s' = ProgramRunning s)) \<and>
   (unat (m_AddressI s) + 2 < GameMemory_size \<longrightarrow>
      (\<exists>s'. OpcodeFX33 opcode s = Inr s' \<and> ProgramRunning s' = ProgramRunning s)) \<and>
   (unat (m_AddressI s) + regX opcode < GameMemory_size \<longrightarrow>
      (\<exists>s'. OpcodeFX55 opcode s = Inr s' \<and> ProgramRunning s' = ProgramRunning s) \<and>
      (\<exists>s'. OpcodeFX65 opcode s = Inr s' \<and> ProgramRunning s' = ProgramRunning s)) \<and>
   (GameMemory_size \<le> unat (m_ProgramCounter s) + 1 \<longrightarrow>
      GetNextOpcode s = Inl UndefinedBehaviour) \<and>
   (immN opcode \<noteq> 0 \<and> GameMemory_size < unat (m_AddressI s) + immN opcode \<longrightarrow>
      OpcodeDXYN opcode s = Inl UndefinedBehaviour) \<and>
   (GameMemory_size \<le> unat (m_AddressI s) + 2 \<longrightarrow>
      OpcodeFX33 opcode s = Inl UndefinedBehaviour) \<and>
   (GameMemory_size \<le> unat (m_AddressI s) + regX opcode \<longrightarrow>
      OpcodeFX55 opcode s = Inl UndefinedBehaviour \<and>
      OpcodeFX65 opcode s = Inl UndefinedBehaviour)"
proof -
  have 1: "decode_execute rnd opcode s \<noteq> Inl AddressOutOfRange"
    using decode_execute_fault [of rnd opcode s AddressOutOfRange] by auto
  have 2: "GetNextOpcode s \<noteq> Inl AddressOutOfRange"
    using GetNextOpcode_fault [of s AddressOutOfRange] by auto
  have 3: "unat (m_ProgramCounter s) + 1 < GameMemory_size \<longrightarrow>
      (\<exists>w s'. GetNextOpcode s = Inr (w, s') \<and> ProgramRunning s' = ProgramRunning s)"
    by (simp add: GetNextOpcode_eq)
  have 4: "unat (m_AddressI s) + immN opcode \<le> GameMemory_size \<longrightarrow>
      (\<exists>s'. OpcodeDXYN opcode s = Inr s' \<and> ProgramRunning s' = ProgramRunning s)"
    by (simp add: OpcodeDXYN_eq)
  have 5: "unat (m_AddressI s) + 2 < GameMemory_size \<longrightarrow>
      (\<exists>s'. OpcodeFX33 opcode s = Inr s' \<and> ProgramRunning s' = ProgramRunning s)"
    by (simp add: OpcodeFX33_def Let_def)
  have 6: "unat (m_AddressI s) + regX opcode < GameMemory_size \<longrightarrow>
      (\<exists>s'. OpcodeFX55 opcode s = Inr s' \<and> ProgramRunning s' = ProgramRunning s) \<and>
      (\<exists>s'. OpcodeFX65 opcode s = Inr s' \<and> ProgramRunning s' = ProgramRunning s)"
    by (simp add: OpcodeFX55_eq OpcodeFX65_eq)
  have 7: "GameMemory_size \<le> unat (m_ProgramCounter s) + 1 \<longrightarrow>
      GetNextOpcode s = Inl UndefinedBehaviour"
    by (simp add: GetNextOpcode_eq)
  have 8: "immN opcode \<noteq> 0 \<and> GameMemory_size < unat (m_AddressI s) + immN opcode \<longrightarrow>
      OpcodeDXYN opcode s = Inl UndefinedBehaviour"
    by (simp add: OpcodeDXYN_eq)
  have 9: "GameMemory_size \<le> unat (m_AddressI s) + 2 \<longrightarrow>
      OpcodeFX33 opcode s = Inl UndefinedBehaviour"
    by (simp add: OpcodeFX33_def Let_def)
  have 10: "GameMemory_size \<le> unat (m_AddressI s) + regX opcode \<longrightarrow>
      OpcodeFX55 opcode s = Inl UndefinedBehaviour \<and>
      OpcodeFX65 opcode s = Inl UndefinedBehaviour"
    by (simp add: OpcodeFX55_eq OpcodeFX65_eq)
  from 1 2 3 4 5 6 7 8 9 10 show ?thesis by blast
qed

text \<open>
  With the index register at 0x300 the accesses of \<open>F233\<close> and of a draw of 3 rows lie
  in the array and have a result; with it at 0x1000 they do not and are undefined.
\<close>

theorem memory_access_unchecked_witness:
  "unat (m_ProgramCounter index_example) + 1 < GameMemory_size \<and>
   (\<exists>w s'. GetNextOpcode index_example = Inr (w, s')) \<and>
   unat (m_AddressI index_example) + immN 0xF233 \<le> GameMemory_size \<and>
   (\<exists>s'. OpcodeDXYN 0xF233 index_example = Inr s') \<and>
   (\<exists>s'. OpcodeFX33 0xF233 index_example = Inr s') \<and>
   (\<exists>s'. OpcodeFX55 0xF233 index_example = Inr s') \<and>
   (\<exists>s'. OpcodeFX65 0xF233 index_example = Inr s') \<and>
   GameMemory_size \<le> unat (m_AddressI far_index_example) + 2 \<and>
   immN 0xF233 \<noteq> 0 \<and>
   OpcodeDXYN 0xF233 far_index_example = Inl UndefinedBehaviour \<and>
   OpcodeFX33 0xF233 far_index_example = Inl UndefinedBehaviour \<and>
   OpcodeFX55 0xF233 far_index_example = Inl UndefinedBehaviour \<and>
   OpcodeFX65 0xF233 far_index_example = Inl UndefinedBehaviour"
proof -
  have f: "immN 0xF233 = 3" "regX 0xF233 = 2"
    by (simp_all add: immN_def regX_def)
  have a: "unat (m_ProgramCounter index_example) = 0" "unat (m_AddressI index_example) = 0x300"
    by (simp_all add: index_example_def initial_globals_def)
  have b: "unat (m_AddressI far_index_example) = 0x1000"
    by (simp add: far_index_example_def initial_globals_def)
  have "(\<exists>w s'. GetNextOpcode index_example = Inr (w, s')) \<and>
      (\<exists>s'. OpcodeDXYN 0xF233 index_example = Inr s') \<and>
      (\<exists>s'. OpcodeFX33 0xF233 index_example = Inr s') \<and>
      (\<exists>s'. OpcodeFX55 0xF233 index_example = Inr s') \<and>
      (\<exists>s'. OpcodeFX65 0xF233 index_example = Inr s')"
    using memory_access_unchecked [of 0 "0xF233" index_example] f a
    by (simp add: GameMemory_size_def) blast
  moreover have "OpcodeDXYN 0xF233 far_index_example = Inl UndefinedBehaviour \<and>
      OpcodeFX33 0xF233 far_index_example = Inl UndefinedBehaviour \<and>
      OpcodeFX55 0xF233 far_index_example = Inl UndefinedBehaviour \<and>
      OpcodeFX65 0xF233 far_index_example = Inl UndefinedBehaviour"
    using memory_access_unchecked [of 0 "0xF233" far_index_example] f b
    by (simp add: GameMemory_size_def)
  ultimately show ?thesis
    using f a b by (simp add: GameMemory_size_def)
qed

subsection \<open>Program load\<close>

text \<open>An image that fits above 0x200 is shorter than what \<open>fread\<close> is asked for, and is
  stored whole.\<close>

lemma CPUReset_fits:
  assumes "0x200 + length img \<le> GameMemory_size"
  shows "CPUReset (Some img) s =
           Inr (s\<lparr>ProgramRunning := True, m_AddressI := 0, m_ProgramCounter := 0x200,
                  m_Registers := (\<lambda>i. if i < 16 then 0 else m_Registers s i),
                  m_GameMemory := store_image img (load_fontset (m_GameMemory s)),
                  m_KeysPressed := (\<lambda>i. if i < 16 then False else m_KeysPressed s i)\<rparr>)"
proof -
  have "take 0xfff img = img"
    using assms by (simp add: GameMemory_size_def)
  then show ?thesis
    using assms by (simp add: CPUReset_def Let_def)
qed

lemma CPUReset_overflow:
  assumes "GameMemory_size < 0x200 + length img"
  shows "CPUReset (Some img) s = Inl UndefinedBehaviour"
  using assms by (simp add: CPUReset_def Let_def GameMemory_size_def min_def)

text \<open>
  A reset from a file that cannot be opened, and a reset from an image of
  4096 - 512 + 1 = 3585 bytes, on the machine as it starts: the source reads from the
  null stream, and stores past the end of the memory array. No LoadError is produced.
\<close>

theorem CPUReset_counterexample:
  "CPUReset None initial_globals = Inl UndefinedBehaviour \<and>
   CPUReset None initial_globals \<noteq> Inl LoadError \<and>
   length long_image = 4096 - 512 + 1 \<and>
   CPUReset (Some long_image) initial_globals = Inl UndefinedBehaviour \<and>
   CPUReset (Some long_image) initial_globals \<noteq> Inl LoadError"
  by (simp add: CPUReset_def long_image_def Let_def GameMemory_size_def)

text \<open>
  Claim C9, amended. \<open>CPUReset\<close> tests neither the file nor its size and never fails
  with LoadError. An image that fits in the memory array from address 0x200 on is stored
  there whole, above the font at 0..79, with the program counter at 0x200 and the
  interpreter running. For a file that cannot be opened, and for an image that does not
  fit, the load is not refused: the behaviour is undefined.
\<close>

theorem CPUReset_unchecked:
  "CPUReset file s \<noteq> Inl LoadError \<and>
   CPUReset None s = Inl UndefinedBehaviour \<and>
   (0x200 + length img \<le> GameMemory_size \<longrightarrow>
      (\<exists>s'. CPUReset (Some img) s = Inr s' \<and> m_ProgramCounter s' = 0x200 \<and>
         ProgramRunning s' \<and>
         (\<forall>i<length img. m_GameMemory s' (0x200 + i) = img ! i) \<and>
         (\<forall>j<80. m_GameMemory s' j = fontset ! j))) \<and>
   (GameMemory_size < 0x200 + length img \<longrightarrow>
      CPUReset (Some img) s = Inl UndefinedBehaviour)"
proof -
  have 1: "CPUReset file s \<noteq> Inl LoadError"
    using CPUReset_fault [of "file" s LoadError] by auto
  have 2: "CPUReset None s = Inl UndefinedBehaviour"
    by (simp add: CPUReset_def)
  have 3: "0x200 + length img \<le> GameMemory_size \<longrightarrow>
      (\<exists>s'. CPUReset (Some img) s = Inr s' \<and> m_ProgramCounter s' = 0x200 \<and>
         ProgramRunning s' \<and>
         (\<forall>i<length img. m_GameMemory s' (0x200 + i) = img ! i) \<and>
         (\<forall>j<80. m_GameMemory s' j = fontset ! j))"
    by (simp add: CPUReset_fits store_image_nth load_fontset_nth)
  have 4: "GameMemory_size < 0x200 + length img \<longrightarrow>
      CPUReset (Some img) s = Inl UndefinedBehaviour"
    by (simp add: CPUReset_overflow)
  from 1 2 3 4 show ?thesis by blast
qed

text \<open>The four bytes of \<open>font_program\<close> fit and are found at 0x200..0x203 after the
  reset; the 3585 bytes of \<open>long_image\<close> do not fit.\<close>

theorem CPUReset_unchecked_witness:
  "0x200 + length font_program \<le> GameMemory_size \<and>
   (\<exists>s'. CPUReset (Some font_program) initial_globals = Inr s' \<and>
      m_ProgramCounter s' = 0x200 \<and>
      map (m_GameMemory s') [0x200, 0x201, 0x202, 0x203] = [0x60, 0x0A, 0xF0, 0x29] \<and>
      m_GameMemory s' 0 = 0xF0) \<and>
   GameMemory_size < 0x200 + length long_image \<and>
   CPUReset (Some long_image) initial_globals = Inl UndefinedBehaviour"
proof -
  have a: "0x200 + length font_program \<le> GameMemory_size"
    by (simp add: font_program_def GameMemory_size_def)
  have b: "GameMemory_size < 0x200 + length long_image"
    by (simp add: long_image_def GameMemory_size_def)
  from CPUReset_unchecked [of "Some font_program" initial_globals font_program] a
  obtain s' where s': "CPUReset (Some font_program) initial_globals = Inr s'"
    "m_ProgramCounter s' = 0x200"
    "\<forall>i<length font_program. m_GameMemory s' (0x200 + i) = font_program ! i"
    "\<forall>j<80. m_GameMemory s' j = fontset ! j"
    by blast
  have g: "m_GameMemory s' (0x200 + i) = font_program ! i" if "i < 4" for i
    using that s'(3) by (simp add: font_program_def)
  have c: "map (m_GameMemory s') [0x200, 0x201, 0x202, 0x203] = [0x60, 0x0A, 0xF0, 0x29]"
    using g [of 0] g [of 1] g [of 2] g [of 3] by (simp add: font_program_def)
  from s'(4) have "m_GameMemory s' 0 = fontset ! 0" by simp
  then have d: "m_GameMemory s' 0 = 0xF0" by (simp add: fontset_def)
  have e: "CPUReset (Some long_image) initial_globals = Inl UndefinedBehaviour"
    using CPUReset_unchecked [of None initial_globals long_image] b by blast
  from a b s'(1,2) c d e show ?thesis by simp
qed

end
